theory Spec2Isabelle
  imports Main "HOL-Library.List_Lexorder" "HOL-Library.Char_ord"
begin

section \<open>Errors, streams and HTTP messages\<close>

text \<open>
  A Go \<open>error\<close> value is modelled by where it was made. \<open>ErrorsNew m\<close> is
  \<open>errors.New(m)\<close>, the only error the client itself creates; every other constructor
  wraps the description of a failure reported by a library call, which the client hands
  on unchanged.
\<close>

datatype error =
    ErrorsNew string
  | URLError string
  | QueryError string
  | JSONError string
  | RequestError string
  | TransportError string
  | ReadError string

text \<open>The \<open>Error()\<close> method: the description of a failure.\<close>

fun Error :: "error \<Rightarrow> string" where
  "Error (ErrorsNew m) = m"
| "Error (URLError m) = m"
| "Error (QueryError m) = m"
| "Error (JSONError m) = m"
| "Error (RequestError m) = m"
| "Error (TransportError m) = m"
| "Error (ReadError m) = m"

text \<open>
  An \<open>io.Reader\<close>: either all of its bytes can be read, or reading stops with an
  error after some bytes.
\<close>

datatype reader = Reader string | BrokenReader string string

fun io_ReadAll :: "reader \<Rightarrow> error + string" where
  "io_ReadAll (Reader s) = Inr s"
| "io_ReadAll (BrokenReader s e) = Inl (ReadError e)"

record response =
  StatusCode :: int
  Body :: reader

definition StatusOK :: int where
  "StatusOK = 200"

record ErrorResponse =
  Message :: string

record 'a Response =
  Data :: 'a

text \<open>
  \<open>json.NewDecoder(r).Decode(&v)\<close> for a target type is a function from the stream to
  the decoded value or the description of the decoding failure. The decoders of
  \<open>encoding/json\<close> are parameters of the model.
\<close>

type_synonym 'a decoder = "reader \<Rightarrow> string + 'a"

section \<open>URL query values\<close>

text \<open>
  \<open>url.Values\<close> maps a key to the list of its values. It is kept as an association
  list with one entry per key; \<open>Add\<close> appends to the values of the key.
\<close>

type_synonym Values = "(string \<times> string list) list"


fun Values_Get :: "Values \<Rightarrow> string \<Rightarrow> string list" where
  "Values_Get [] key = []"
| "Values_Get ((k, xs) # v) key = (if k = key then xs else Values_Get v key)"

definition upperhex :: string where
  "upperhex = ''0123456789ABCDEF''"

definition isAlnum :: "char \<Rightarrow> bool" where
  "isAlnum c \<longleftrightarrow>
     (CHR ''a'' \<le> c \<and> c \<le> CHR ''z'') \<or> (CHR ''A'' \<le> c \<and> c \<le> CHR ''Z'') \<or>
     (CHR ''0'' \<le> c \<and> c \<le> CHR ''9'')"

text \<open>\<open>shouldEscape(c, encodeQueryComponent)\<close>: only unreserved characters stay.\<close>

definition shouldEscape :: "char \<Rightarrow> bool" where
  "shouldEscape c \<longleftrightarrow> \<not> (isAlnum c \<or> c \<in> set ''-_.~'')"

definition escape_byte :: "char \<Rightarrow> string" where
  "escape_byte c =
     (if shouldEscape c then
        (if c = CHR '' '' then ''+''
         else [CHR ''%'', upperhex ! (of_char c div 16), upperhex ! (of_char c mod 16)])
      else [c])"

definition QueryEscape :: "string \<Rightarrow> string" where
  "QueryEscape s = concat (map escape_byte s)"

text \<open>
  \<open>Values.Encode\<close>: the keys in sorted order, each value of a key as
  \<open>key=value\<close> with both sides escaped, and \<open>&\<close> written before a pair whenever the
  buffer is not empty.
\<close>

definition write_pair :: "string \<Rightarrow> string \<Rightarrow> string \<Rightarrow> string" where
  "write_pair keyEscaped x buf =
     (if length buf > 0 then buf @ ''&'' else buf) @ keyEscaped @ ''='' @ QueryEscape x"

definition write_key :: "Values \<Rightarrow> string \<Rightarrow> string \<Rightarrow> string" where
  "write_key v k buf = fold (write_pair (QueryEscape k)) (Values_Get v k) buf"

definition Values_Encode :: "Values \<Rightarrow> string" where
  "Values_Encode v = fold (write_key v) (sort (map fst v)) []"

section \<open>The transport primitive\<close>

text \<open>
  What a request carries as its body: the bytes of a buffer, or a multipart/form-data
  document, kept as its boundary and the sequence of its parts. A part is a file part
  (field name, file name, content) or a plain form field (field name, value).
\<close>

datatype part = FormFile string string string | FormField string string

datatype body = Bytes string | MultipartForm string "part list"

record request =
  Method :: string
  URL :: string
  ReqBody :: "body option"
  Header :: "string \<rightharpoonup> string"

text \<open>
  The configuration of a client. \<open>HTTPClient\<close> is the \<open>Do\<close> method of the injected
  HTTP client: one round trip, a response or the description of a transport failure.
  The context of a call is only handed on to that round trip, so cancellation is part of
  what \<open>HTTPClient\<close> answers and the context is not a parameter of its own.
\<close>

record ClientConfig =
  BaseURL :: string
  APIUser :: string
  Token :: string
  HTTPClient :: "request \<Rightarrow> string + response"

text \<open>
  The library calls made by \<open>do\<close> on its data object, whose type \<open>'d\<close> is whatever
  the endpoint passes as \<open>any\<close>: \<open>url.JoinPath\<close>, \<open>query.Values\<close> of
  go-querystring, the JSON encoder, and the checks of \<open>http.NewRequestWithContext\<close>
  on the method and the URL (\<open>Some\<close> reason when it rejects them).
\<close>

record 'd golib =
  url_JoinPath :: "string \<Rightarrow> string \<Rightarrow> string + string"
  query_Values :: "'d \<Rightarrow> string + Values"
  json_Encode :: "'d \<Rightarrow> string + string"
  http_NewRequest_rejects :: "string \<Rightarrow> string \<Rightarrow> string option"

definition auth :: "ClientConfig \<Rightarrow> string" where
  "auth c = ''token '' @ APIUser c @ '':'' @ Token c"

definition http_NewRequestWithContext ::
  "'d golib \<Rightarrow> string \<Rightarrow> string \<Rightarrow> body option \<Rightarrow> error + request" where
  "http_NewRequestWithContext lib method endpoint body =
     (case http_NewRequest_rejects lib method endpoint of
        Some err \<Rightarrow> Inl (RequestError err)
      | None \<Rightarrow> Inr \<lparr>Method = method, URL = endpoint, ReqBody = body, Header = Map.empty\<rparr>)"

definition Header_Set :: "request \<Rightarrow> string \<Rightarrow> string \<Rightarrow> request" where
  "Header_Set req k v = req\<lparr>Header := (Header req)(k \<mapsto> v)\<rparr>"

text \<open>
  The URL of \<open>do\<close>: the joined endpoint, followed by \<open>?\<close> and the encoded query
  when a data object is given and its encoding is not empty.
\<close>

definition do_endpoint :: "'d golib \<Rightarrow> ClientConfig \<Rightarrow> string \<Rightarrow> 'd option \<Rightarrow> error + string" where
  "do_endpoint lib c path data =
     (case url_JoinPath lib (BaseURL c) path of
        Inl err \<Rightarrow> Inl (URLError err)
      | Inr endpoint \<Rightarrow>
          (case data of
             None \<Rightarrow> Inr endpoint
           | Some d \<Rightarrow>
               (case query_Values lib d of
                  Inl err \<Rightarrow> Inl (QueryError err)
                | Inr q \<Rightarrow>
                    (let encoded = Values_Encode q in
                     if length encoded > 0 then Inr (endpoint @ ''?'' @ Values_Encode q)
                     else Inr endpoint))))"

text \<open>The body of \<open>do\<close>: JSON of the data object for POST and PUT, none otherwise.\<close>

definition do_body :: "'d golib \<Rightarrow> string \<Rightarrow> 'd option \<Rightarrow> error + body option" where
  "do_body lib method data =
     (if (method = ''POST'' \<or> method = ''PUT'') \<and> data \<noteq> None then
        (case json_Encode lib (the data) of
           Inl err \<Rightarrow> Inl (JSONError err)
         | Inr buf \<Rightarrow> Inr (Some (Bytes buf)))
      else Inr None)"

text \<open>The request that \<open>do\<close> hands to the HTTP client.\<close>

definition do_request ::
  "'d golib \<Rightarrow> ClientConfig \<Rightarrow> string \<Rightarrow> string \<Rightarrow> 'd option \<Rightarrow> error + request" where
  "do_request lib c method path data =
     (case do_endpoint lib c path data of
        Inl err \<Rightarrow> Inl err
      | Inr endpoint \<Rightarrow>
          (case do_body lib method data of
             Inl err \<Rightarrow> Inl err
           | Inr body \<Rightarrow>
               (case http_NewRequestWithContext lib method endpoint body of
                  Inl err \<Rightarrow> Inl err
                | Inr req \<Rightarrow>
                    Inr (Header_Set (Header_Set req ''Authorization'' (auth c))
                           ''Content-Type'' ''application/json''))))"

definition do ::
  "'d golib \<Rightarrow> ClientConfig \<Rightarrow> string \<Rightarrow> string \<Rightarrow> 'd option \<Rightarrow> error + response" where
  "do lib c method path data =
     (case do_request lib c method path data of
        Inl err \<Rightarrow> Inl err
      | Inr req \<Rightarrow>
          (case HTTPClient c req of
             Inl err \<Rightarrow> Inl (TransportError err)
           | Inr resp \<Rightarrow> Inr resp))"

section \<open>The envelope decoder\<close>

definition decode :: "ErrorResponse decoder \<Rightarrow> 'a decoder \<Rightarrow> response \<Rightarrow> error + 'a" where
  "decode decErr decT resp =
     (if StatusCode resp \<noteq> StatusOK then
        (case decErr (Body resp) of
           Inl err \<Rightarrow> Inl (JSONError err)
         | Inr data \<Rightarrow> Inl (ErrorsNew (Message data)))
      else
        (case decT (Body resp) of
           Inl err \<Rightarrow> Inl (JSONError err)
         | Inr data \<Rightarrow> Inr data))"

definition request ::
  "'d golib \<Rightarrow> ErrorResponse decoder \<Rightarrow> 'a decoder \<Rightarrow> ClientConfig \<Rightarrow>
   string \<Rightarrow> string \<Rightarrow> 'd option \<Rightarrow> error + 'a" where
  "request lib decErr decT client method path data =
     (case do lib client method path data of
        Inl err \<Rightarrow> Inl err
      | Inr resp \<Rightarrow> decode decErr decT resp)"

section \<open>Endpoints\<close>

text \<open>The \<open>%d\<close> verb of \<open>fmt.Sprintf\<close>: an integer in decimal.\<close>

definition digits :: string where
  "digits = ''0123456789''"

fun decimal :: "nat \<Rightarrow> string" where
  "decimal n =
     (if n < 10 then [digits ! n] else decimal (n div 10) @ [digits ! (n mod 10)])"

declare decimal.simps [simp del]

definition itoa :: "int \<Rightarrow> string" where
  "itoa i = (if i < 0 then ''-'' @ decimal (nat (- i)) else decimal (nat i))"

text \<open>
  A run-time panic is kept apart from a returned error: an endpoint that can panic
  yields \<open>Inl\<close> of the panic, or \<open>Inr\<close> of what it returns.
\<close>

datatype panic = IndexOutOfRange nat nat | NilDereference

text \<open>
  \<open>GetSubscriber\<close> asks \<open>request\<close> for a \<open>Response[*Subscriber]\<close> and returns
  its \<open>Data\<close> field.
\<close>

definition GetSubscriber ::
  "'d golib \<Rightarrow> ErrorResponse decoder \<Rightarrow> 's Response decoder \<Rightarrow> ClientConfig \<Rightarrow> int \<Rightarrow>
   error + 's" where
  "GetSubscriber lib decErr dec c ident =
     (case request lib decErr dec c ''GET'' (''/api/subscribers/'' @ itoa ident) None of
        Inl err \<Rightarrow> Inl err
      | Inr resp \<Rightarrow> Inr (Data resp))"

text \<open>
  \<open>ExportSubscriber\<close> and \<open>GetPublicLists\<close> ask \<open>request\<close> for the result type
  itself and return the decoded value.
\<close>

definition ExportSubscriber ::
  "'d golib \<Rightarrow> ErrorResponse decoder \<Rightarrow> 'e decoder \<Rightarrow> ClientConfig \<Rightarrow> int \<Rightarrow>
   error + 'e" where
  "ExportSubscriber lib decErr dec c ident =
     (case request lib decErr dec c ''GET'' (''/api/subscribers/'' @ itoa ident @ ''/export'') None of
        Inl err \<Rightarrow> Inl err
      | Inr resp \<Rightarrow> Inr resp)"

definition GetPublicLists ::
  "'d golib \<Rightarrow> ErrorResponse decoder \<Rightarrow> 'l decoder \<Rightarrow> ClientConfig \<Rightarrow> error + 'l" where
  "GetPublicLists lib decErr dec c =
     (case request lib decErr dec c ''GET'' ''/api/public/lists'' None of
        Inl err \<Rightarrow> Inl err
      | Inr resp \<Rightarrow> Inr resp)"

text \<open>
  The preview endpoints call \<open>do\<close> themselves, decode the error envelope when the
  status is not 200 and read the whole body otherwise. The two functions have the same
  text but for the path, which is why they share \<open>preview\<close> here.
\<close>

definition preview ::
  "'d golib \<Rightarrow> ErrorResponse decoder \<Rightarrow> ClientConfig \<Rightarrow> string \<Rightarrow> error + string" where
  "preview lib decErr c path =
     (case do lib c ''GET'' path None of
        Inl err \<Rightarrow> Inl err
      | Inr resp \<Rightarrow>
          (if StatusCode resp \<noteq> StatusOK then
             (case decErr (Body resp) of
                Inl err \<Rightarrow> Inl (JSONError err)
              | Inr data \<Rightarrow> Inl (ErrorsNew (Message data)))
           else
             (case io_ReadAll (Body resp) of
                Inl err \<Rightarrow> Inl err
              | Inr body \<Rightarrow> Inr body)))"

definition GetCampaignPreview ::
  "'d golib \<Rightarrow> ErrorResponse decoder \<Rightarrow> ClientConfig \<Rightarrow> int \<Rightarrow> error + string" where
  "GetCampaignPreview lib decErr c ident =
     preview lib decErr c (''/api/campaigns/'' @ itoa ident @ ''/preview'')"

definition GetTemplatePreview ::
  "'d golib \<Rightarrow> ErrorResponse decoder \<Rightarrow> ClientConfig \<Rightarrow> int \<Rightarrow> error + string" where
  "GetTemplatePreview lib decErr c ident =
     preview lib decErr c (''/api/templates/'' @ itoa ident @ ''/preview'')"

record CreateTemplateParams =
  Name :: string
  Type :: string
  Subject :: string
  TemplateBody :: string
  BodySource :: string

text \<open>\<open>&resp.Data[0]\<close>: the first element of the slice, a panic when it has none.\<close>

definition first_element :: "'t list \<Rightarrow> panic + (error + 't)" where
  "first_element xs =
     (case xs of [] \<Rightarrow> Inl (IndexOutOfRange 0 0) | x # _ \<Rightarrow> Inr (Inr x))"

definition CreateTemplate ::
  "'d golib \<Rightarrow> ErrorResponse decoder \<Rightarrow> 't list Response decoder \<Rightarrow> ClientConfig \<Rightarrow>
   CreateTemplateParams \<Rightarrow> panic + (error + 't)" where
  "CreateTemplate lib decErr dec c params =
     (case request lib decErr dec c ''POST'' ''/api/templates'' None of
        Inl err \<Rightarrow> Inr (Inl err)
      | Inr resp \<Rightarrow> first_element (Data resp))"

definition UpdateTemplate ::
  "'d golib \<Rightarrow> ErrorResponse decoder \<Rightarrow> 't list Response decoder \<Rightarrow> ClientConfig \<Rightarrow>
   int \<Rightarrow> panic + (error + 't)" where
  "UpdateTemplate lib decErr dec c ident =
     (case request lib decErr dec c ''PUT'' (''/api/templates/'' @ itoa ident) None of
        Inl err \<Rightarrow> Inr (Inl err)
      | Inr resp \<Rightarrow> first_element (Data resp))"

section \<open>The multipart upload path\<close>

text \<open>
  A \<open>multipart.Writer\<close> over a buffer: its boundary and the parts written so far.
  \<open>CreateFormFile\<close> opens a file part, \<open>io.Copy\<close> into the part just opened
  appends the bytes of a reader to it, \<open>WriteField\<close> adds a form field. Writing to
  the buffer itself does not fail; a reader can fail, and copying from a nil reader
  panics. \<open>NewWriter\<close> picks the boundary at random, so it is a parameter here.
\<close>

record Writer =
  Boundary :: string
  Parts :: "part list"
  Closed :: bool

definition NewWriter :: "string \<Rightarrow> Writer" where
  "NewWriter boundary = \<lparr>Boundary = boundary, Parts = [], Closed = False\<rparr>"

definition CreateFormFile :: "Writer \<Rightarrow> string \<Rightarrow> string \<Rightarrow> error + Writer" where
  "CreateFormFile w fieldname filename =
     Inr (w\<lparr>Parts := Parts w @ [FormFile fieldname filename []]\<rparr>)"

fun part_write :: "part \<Rightarrow> string \<Rightarrow> part" where
  "part_write (FormFile fieldname filename content) s = FormFile fieldname filename (content @ s)"
| "part_write (FormField fieldname v) s = FormField fieldname (v @ s)"

definition io_Copy :: "Writer \<Rightarrow> reader option \<Rightarrow> panic + (error + Writer)" where
  "io_Copy w src =
     (case src of
        None \<Rightarrow> Inl NilDereference
      | Some (BrokenReader s e) \<Rightarrow> Inr (Inl (ReadError e))
      | Some (Reader s) \<Rightarrow>
          Inr (Inr (w\<lparr>Parts := butlast (Parts w) @ [part_write (last (Parts w)) s]\<rparr>)))"

definition WriteField :: "Writer \<Rightarrow> string \<Rightarrow> string \<Rightarrow> error + Writer" where
  "WriteField w fieldname v = Inr (w\<lparr>Parts := Parts w @ [FormField fieldname v]\<rparr>)"

definition Writer_Close :: "Writer \<Rightarrow> error + Writer" where
  "Writer_Close w = Inr (w\<lparr>Closed := True\<rparr>)"

definition FormDataContentType :: "Writer \<Rightarrow> string" where
  "FormDataContentType w = ''multipart/form-data; boundary='' @ Boundary w"

text \<open>
  The two loops of \<open>multipart\<close>. A Go map is given as the list of its entries in the
  order the \<open>range\<close> loop visits them.
\<close>

fun write_files :: "Writer \<Rightarrow> (string \<times> reader option) list \<Rightarrow> panic + (error + Writer)" where
  "write_files w [] = Inr (Inr w)"
| "write_files w ((key, r) # form_files) =
     (case CreateFormFile w key key of
        Inl err \<Rightarrow> Inr (Inl err)
      | Inr w' \<Rightarrow>
          (case io_Copy w' r of
             Inl p \<Rightarrow> Inl p
           | Inr (Inl err) \<Rightarrow> Inr (Inl err)
           | Inr (Inr w'') \<Rightarrow> write_files w'' form_files))"

fun write_fields :: "Writer \<Rightarrow> (string \<times> string) list \<Rightarrow> error + Writer" where
  "write_fields w [] = Inr w"
| "write_fields w ((key, v) # form_fields) =
     (case WriteField w key v of
        Inl err \<Rightarrow> Inl err
      | Inr w' \<Rightarrow> write_fields w' form_fields)"

text \<open>The request that \<open>multipart\<close> hands to the HTTP client.\<close>

definition multipart_request ::
  "'d golib \<Rightarrow> ClientConfig \<Rightarrow> string \<Rightarrow> string \<Rightarrow> (string \<times> string) list \<Rightarrow>
   (string \<times> reader option) list \<Rightarrow> panic + (error + request)" where
  "multipart_request lib c boundary path form_fields form_files =
     (case url_JoinPath lib (BaseURL c) path of
        Inl err \<Rightarrow> Inr (Inl (URLError err))
      | Inr endpoint \<Rightarrow>
          (case write_files (NewWriter boundary) form_files of
             Inl p \<Rightarrow> Inl p
           | Inr (Inl err) \<Rightarrow> Inr (Inl err)
           | Inr (Inr w1) \<Rightarrow>
               (case write_fields w1 form_fields of
                  Inl err \<Rightarrow> Inr (Inl err)
                | Inr w2 \<Rightarrow>
                    (case Writer_Close w2 of
                       Inl err \<Rightarrow> Inr (Inl err)
                     | Inr writer \<Rightarrow>
                         (case http_NewRequestWithContext lib ''POST'' endpoint
                                 (Some (MultipartForm (Boundary writer) (Parts writer))) of
                            Inl err \<Rightarrow> Inr (Inl err)
                          | Inr req \<Rightarrow>
                              Inr (Inr (Header_Set (Header_Set req ''Authorization'' (auth c))
                                     ''Content-Type'' (FormDataContentType writer))))))))"

definition multipart ::
  "'d golib \<Rightarrow> ClientConfig \<Rightarrow> string \<Rightarrow> string \<Rightarrow> (string \<times> string) list \<Rightarrow>
   (string \<times> reader option) list \<Rightarrow> panic + (error + response)" where
  "multipart lib c boundary path form_fields form_files =
     (case multipart_request lib c boundary path form_fields form_files of
        Inl p \<Rightarrow> Inl p
      | Inr (Inl err) \<Rightarrow> Inr (Inl err)
      | Inr (Inr req) \<Rightarrow>
          (case HTTPClient c req of
             Inl err \<Rightarrow> Inr (Inl (TransportError err))
           | Inr resp \<Rightarrow> Inr (Inr resp)))"

record ImportSubscribersConfig =
  Mode :: string
  Delimeter :: string
  Lists :: "int list"
  Overwrite :: bool

record ImportSubscribersParams =
  Config :: ImportSubscribersConfig
  File :: "reader option"

text \<open>
  \<open>ImportSubscribers\<close>: \<open>json.Marshal\<close> of the configuration is a parameter; a nil
  \<open>params\<close> pointer panics when its \<open>Config\<close> is read.
\<close>

definition ImportSubscribers ::
  "'d golib \<Rightarrow> (ImportSubscribersConfig \<Rightarrow> string + string) \<Rightarrow> ErrorResponse decoder \<Rightarrow>
   'r Response decoder \<Rightarrow> ClientConfig \<Rightarrow> string \<Rightarrow> ImportSubscribersParams option \<Rightarrow>
   panic + (error + 'r)" where
  "ImportSubscribers lib json_Marshal decErr dec c boundary params =
     (case params of
        None \<Rightarrow> Inl NilDereference
      | Some p \<Rightarrow>
          (case json_Marshal (Config p) of
             Inl err \<Rightarrow> Inr (Inl (JSONError err))
           | Inr config \<Rightarrow>
               (case multipart lib c boundary ''/api/import/subscribers''
                       [(''params'', config)] [(''file'', File p)] of
                  Inl pn \<Rightarrow> Inl pn
                | Inr (Inl err) \<Rightarrow> Inr (Inl err)
                | Inr (Inr resp) \<Rightarrow>
                    (case decode decErr dec resp of
                       Inl err \<Rightarrow> Inr (Inl err)
                     | Inr data \<Rightarrow> Inr (Inr (Data data))))))"

text \<open>A stream that is supplied and can be read to its end, as a map entry of \<open>files\<close>.\<close>

fun stream_entry :: "string \<times> string \<Rightarrow> string \<times> reader option" where
  "stream_entry (key, content) = (key, Some (Reader content))"

text \<open>The part that a stream entry and a string entry are expected to give.\<close>

fun file_part :: "string \<times> string \<Rightarrow> part" where
  "file_part (key, content) = FormFile key key content"

fun field_part :: "string \<times> string \<Rightarrow> part" where
  "field_part (key, v) = FormField key v"

section \<open>Query encoding of parameter objects\<close>






text \<open>\<open>strings.Split\<close> with a one-byte separator and \<open>strings.Join\<close>.\<close>

fun split :: "char \<Rightarrow> string \<Rightarrow> string list" where
  "split sep [] = [[]]"
| "split sep (c # cs) =
     (if c = sep then [] # split sep cs
      else (case split sep cs of [] \<Rightarrow> [[c]] | w # ws \<Rightarrow> (c # w) # ws))"

















definition append_pairs :: "string list \<Rightarrow> string \<Rightarrow> string" where
  "append_pairs ps buf = fold (\<lambda>p buf. (if length buf > 0 then buf @ ''&'' else buf) @ p) ps buf"



section \<open>Decoding a query string\<close>






















section \<open>Example values\<close>

text \<open>Decoders, library functions and a client used to run the model on concrete inputs.\<close>

definition envelope_decoder :: "ErrorResponse decoder" where
  "envelope_decoder r =
     (if r = Reader ''{\"message\": \"invalid email\"}'' then Inr \<lparr>Message = ''invalid email''\<rparr>
      else Inl ''invalid character'')"

definition text_decoder :: "string decoder" where
  "text_decoder r =
     (case r of
        Reader s \<Rightarrow> (if s = ''\"ok\"'' then Inr ''ok'' else Inl ''invalid character'')
      | BrokenReader s e \<Rightarrow> Inl e)"

definition wrapped_decoder :: "string Response decoder" where
  "wrapped_decoder r =
     (if r = Reader ''{\"data\": \"ok\"}'' then Inr \<lparr>Data = ''ok''\<rparr>
      else Inl ''invalid character'')"

definition templates_decoder :: "string list Response decoder" where
  "templates_decoder r =
     (if r = Reader ''{\"data\": []}'' then Inr \<lparr>Data = []\<rparr>
      else if r = Reader ''{\"data\": [\"t\"]}'' then Inr \<lparr>Data = [''t'']\<rparr>
      else Inl ''invalid character'')"

definition example_lib :: "string golib" where
  "example_lib =
     \<lparr>url_JoinPath = (\<lambda>base path. Inr (base @ path)),
      query_Values = (\<lambda>d. Inr [(''query'', [d])]),
      json_Encode = (\<lambda>d. Inr (''\"'' @ d @ ''\"'')),
      http_NewRequest_rejects = (\<lambda>method url. None)\<rparr>"

definition example_client :: "response \<Rightarrow> ClientConfig" where
  "example_client resp =
     \<lparr>BaseURL = ''http://localhost:9000'', APIUser = ''api'', Token = ''secret'',
      HTTPClient = (\<lambda>req. Inr resp)\<rparr>"

definition ok_response :: "string \<Rightarrow> response" where
  "ok_response s = \<lparr>StatusCode = 200, Body = Reader s\<rparr>"

definition sample_params :: CreateTemplateParams where
  "sample_params =
     \<lparr>Name = ''welcome'', Type = ''tx'', Subject = ''Hello'', TemplateBody = ''<p>Hi</p>'',
      BodySource = []\<rparr>"

definition other_params :: CreateTemplateParams where
  "other_params =
     \<lparr>Name = ''digest'', Type = ''campaign'', Subject = [], TemplateBody = ''<p>News</p>'',
      BodySource = ''{}''\<rparr>"

definition import_decoder :: "string Response decoder" where
  "import_decoder r =
     (if r = Reader ''{\"data\": \"subscribe\"}'' then Inr \<lparr>Data = ''subscribe''\<rparr>
      else Inl ''invalid character'')"

definition marshal_config :: "ImportSubscribersConfig \<Rightarrow> string + string" where
  "marshal_config cfg =
     (if cfg = \<lparr>Mode = ''subscribe'', Delimeter = '','', Lists = [1], Overwrite = True\<rparr>
      then Inr ''{\"mode\":\"subscribe\",\"delim\":\",\",\"lists\":[1],\"overwrite\":true}''
      else Inl ''unsupported value'')"

definition sample_config :: ImportSubscribersConfig where
  "sample_config = \<lparr>Mode = ''subscribe'', Delimeter = '','', Lists = [1], Overwrite = True\<rparr>"

definition sample_config_json :: string where
  "sample_config_json = ''{\"mode\":\"subscribe\",\"delim\":\",\",\"lists\":[1],\"overwrite\":true}''"







section \<open>Properties of the envelope decoder\<close>

text \<open>
  Claim C1. A response whose status code is not 200 always makes \<open>decode\<close> fail and
  never yields a payload: when the body decodes as the error envelope, the failure is
  \<open>errors.New\<close> of the envelope's message, so its description is that message; when
  the error body cannot be decoded, the failure is that decoding error.
\<close>

theorem decode_non_200_fails:
  assumes "StatusCode resp \<noteq> 200"
  shows "(\<forall>d. decErr (Body resp) = Inr d \<longrightarrow>
            decode decErr decT resp = Inl (ErrorsNew (Message d)) \<and>
            (\<forall>e. decode decErr decT resp = Inl e \<longrightarrow> Error e = Message d))
       \<and> (\<forall>f. decErr (Body resp) = Inl f \<longrightarrow> decode decErr decT resp = Inl (JSONError f))
       \<and> (\<forall>p. decode decErr decT resp \<noteq> Inr p)"
  using assms by (auto simp: decode_def StatusOK_def split: sum.splits)

theorem decode_non_200_fails_witness:
  "(400::int) \<noteq> 200 \<and>
   decode envelope_decoder text_decoder
     \<lparr>StatusCode = 400, Body = Reader ''{\"message\": \"invalid email\"}''\<rparr>
     = Inl (ErrorsNew ''invalid email'') \<and>
   decode envelope_decoder text_decoder \<lparr>StatusCode = 500, Body = Reader ''<html>''\<rparr>
     = Inl (JSONError ''invalid character'')"
  using decode_non_200_fails [of "\<lparr>StatusCode = 400, Body = Reader ''{\"message\": \"invalid email\"}''\<rparr>"
     envelope_decoder text_decoder]
    decode_non_200_fails [of "\<lparr>StatusCode = 500, Body = Reader ''<html>''\<rparr>"
     envelope_decoder text_decoder]
  by (simp add: envelope_decoder_def)

text \<open>
  Claim C2. A response with status 200 is decoded into the result shape the caller chose
  and that value is returned. When the body does not match the shape the call fails with
  the decoding error, which is never the \<open>errors.New\<close> failure of the error
  envelope: the decoder of the error envelope plays no part in the result.
\<close>

theorem decode_200_decodes_result:
  assumes "StatusCode resp = 200"
  shows "decode decErr decT resp = map_sum JSONError id (decT (Body resp))
       \<and> (\<forall>d. decT (Body resp) = Inr d \<longrightarrow> decode decErr decT resp = Inr d)
       \<and> (\<forall>f. decT (Body resp) = Inl f \<longrightarrow>
             decode decErr decT resp = Inl (JSONError f) \<and>
             (\<forall>m. decode decErr decT resp \<noteq> Inl (ErrorsNew m)))
       \<and> decode decErr decT resp = decode decErr' decT resp"
  using assms by (auto simp: decode_def StatusOK_def split: sum.splits)

theorem decode_200_decodes_result_witness:
  "(200::int) = 200 \<and>
   decode envelope_decoder text_decoder \<lparr>StatusCode = 200, Body = Reader ''\"ok\"''\<rparr> = Inr ''ok'' \<and>
   decode envelope_decoder text_decoder \<lparr>StatusCode = 200, Body = Reader ''<html>''\<rparr>
     = Inl (JSONError ''invalid character'') \<and>
   decode envelope_decoder text_decoder
     \<lparr>StatusCode = 200, Body = Reader ''{\"message\": \"invalid email\"}''\<rparr>
     = Inl (JSONError ''invalid character'')"
  using decode_200_decodes_result [of "\<lparr>StatusCode = 200, Body = Reader ''\"ok\"''\<rparr>"
      envelope_decoder text_decoder envelope_decoder]
    decode_200_decodes_result [of "\<lparr>StatusCode = 200, Body = Reader ''<html>''\<rparr>"
      envelope_decoder text_decoder envelope_decoder]
    decode_200_decodes_result
      [of "\<lparr>StatusCode = 200, Body = Reader ''{\"message\": \"invalid email\"}''\<rparr>"
      envelope_decoder text_decoder envelope_decoder]
  by (simp add: text_decoder_def)

section \<open>Properties of the transport primitive\<close>




section \<open>Properties of the endpoints\<close>

lemma request_200:
  "do lib c method path data = Inr resp \<Longrightarrow> StatusCode resp = 200 \<Longrightarrow>
   request lib decErr dec c method path data = map_sum JSONError id (dec (Body resp))"
  by (auto simp: request_def decode_def StatusOK_def split: sum.splits)

text \<open>
  Claim C5. The shape of the envelope is fixed by the endpoint: on a 200 response
  \<open>GetSubscriber\<close> decodes a \<open>Response\<close> wrapper and returns its \<open>Data\<close>
  field, while \<open>ExportSubscriber\<close> and \<open>GetPublicLists\<close> decode the body as the
  result itself and return it without unwrapping.
\<close>

theorem envelope_shape_per_endpoint:
  "(do lib c ''GET'' (''/api/subscribers/'' @ itoa ident) None = Inr resp \<and> StatusCode resp = 200 \<longrightarrow>
      GetSubscriber lib decErr decW c ident = map_sum JSONError Data (decW (Body resp)))
 \<and> (do lib c ''GET'' (''/api/subscribers/'' @ itoa ident @ ''/export'') None = Inr resp
        \<and> StatusCode resp = 200 \<longrightarrow>
      ExportSubscriber lib decErr decB c ident = map_sum JSONError id (decB (Body resp)))
 \<and> (do lib c ''GET'' ''/api/public/lists'' None = Inr resp \<and> StatusCode resp = 200 \<longrightarrow>
      GetPublicLists lib decErr decL c = map_sum JSONError id (decL (Body resp)))"
proof (intro conjI impI)
  assume "do lib c ''GET'' (''/api/subscribers/'' @ itoa ident) None = Inr resp \<and> StatusCode resp = 200"
  then have "request lib decErr decW c ''GET'' (''/api/subscribers/'' @ itoa ident) None =
      map_sum JSONError id (decW (Body resp))"
    by (intro request_200) auto
  then show "GetSubscriber lib decErr decW c ident = map_sum JSONError Data (decW (Body resp))"
    unfolding GetSubscriber_def by (cases "decW (Body resp)") simp_all
next
  assume "do lib c ''GET'' (''/api/subscribers/'' @ itoa ident @ ''/export'') None = Inr resp
        \<and> StatusCode resp = 200"
  then have "request lib decErr decB c ''GET'' (''/api/subscribers/'' @ itoa ident @ ''/export'') None =
      map_sum JSONError id (decB (Body resp))"
    by (intro request_200) auto
  then show "ExportSubscriber lib decErr decB c ident = map_sum JSONError id (decB (Body resp))"
    unfolding ExportSubscriber_def by (cases "decB (Body resp)") simp_all
next
  assume "do lib c ''GET'' ''/api/public/lists'' None = Inr resp \<and> StatusCode resp = 200"
  then have "request lib decErr decL c ''GET'' ''/api/public/lists'' None =
      map_sum JSONError id (decL (Body resp))"
    by (intro request_200) auto
  then show "GetPublicLists lib decErr decL c = map_sum JSONError id (decL (Body resp))"
    unfolding GetPublicLists_def by (cases "decL (Body resp)") simp_all
qed

lemma do_example [simp]:
  "do example_lib (example_client r) method path None = Inr r"
  by (simp add: do_def do_request_def do_endpoint_def do_body_def example_lib_def
       example_client_def http_NewRequestWithContext_def)

theorem envelope_shape_per_endpoint_witness:
  "GetSubscriber example_lib envelope_decoder wrapped_decoder
     (example_client (ok_response ''{\"data\": \"ok\"}'')) 7 = Inr ''ok''
 \<and> ExportSubscriber example_lib envelope_decoder text_decoder
     (example_client (ok_response ''\"ok\"'')) 7 = Inr ''ok''
 \<and> GetPublicLists example_lib envelope_decoder text_decoder
     (example_client (ok_response ''\"ok\"'')) = Inr ''ok''"
  using envelope_shape_per_endpoint [of example_lib "example_client (ok_response ''{\"data\": \"ok\"}'')" 7
     "ok_response ''{\"data\": \"ok\"}''" envelope_decoder wrapped_decoder text_decoder text_decoder]
    envelope_shape_per_endpoint [of example_lib "example_client (ok_response ''\"ok\"'')" 7
     "ok_response ''\"ok\"''" envelope_decoder wrapped_decoder text_decoder text_decoder]
  by (simp add: ok_response_def wrapped_decoder_def text_decoder_def)

lemma preview_spec:
  assumes "do lib c ''GET'' path None = Inr resp"
  shows "(StatusCode resp \<noteq> 200 \<longrightarrow>
            (\<exists>e. preview lib decErr c path = Inl e \<and> (\<forall>decT. decode decErr decT resp = Inl e)))
       \<and> (StatusCode resp = 200 \<longrightarrow>
            preview lib decErr c path = io_ReadAll (Body resp) \<and>
            preview lib decErr c path = preview lib decErr' c path \<and>
            (\<forall>s. Body resp = Reader s \<longrightarrow> preview lib decErr c path = Inr s))"
  using assms
  by (auto simp: preview_def decode_def StatusOK_def split: sum.splits)

lemma first_template_request:
  "do lib c method path None = Inr resp \<Longrightarrow> StatusCode resp = 200 \<Longrightarrow>
   dec (Body resp) = Inr r \<Longrightarrow>
   (case request lib decErr dec c method path None of
      Inl err \<Rightarrow> Inr (Inl err)
    | Inr resp \<Rightarrow> first_element (Data resp)) = first_element (Data r)"
  by (simp add: request_200)

text \<open>
  Claim C7. \<open>GetCampaignPreview\<close> and \<open>GetTemplatePreview\<close>: when the status is
  not 200 the call fails with exactly the failure \<open>decode\<close> gives for that response;
  when it is 200 the call returns what reading the whole body gives, the text itself for
  a readable body, and the JSON decoder has no influence on the result.
\<close>

theorem preview_endpoints_raw_text:
  "(do lib c ''GET'' (''/api/campaigns/'' @ itoa ident @ ''/preview'') None = Inr resp \<longrightarrow>
      (StatusCode resp \<noteq> 200 \<longrightarrow>
         (\<exists>e. GetCampaignPreview lib decErr c ident = Inl e \<and>
              (\<forall>decT. decode decErr decT resp = Inl e))) \<and>
      (StatusCode resp = 200 \<longrightarrow>
         GetCampaignPreview lib decErr c ident = io_ReadAll (Body resp) \<and>
         GetCampaignPreview lib decErr c ident = GetCampaignPreview lib decErr' c ident \<and>
         (\<forall>s. Body resp = Reader s \<longrightarrow> GetCampaignPreview lib decErr c ident = Inr s)))
 \<and> (do lib c ''GET'' (''/api/templates/'' @ itoa ident @ ''/preview'') None = Inr resp \<longrightarrow>
      (StatusCode resp \<noteq> 200 \<longrightarrow>
         (\<exists>e. GetTemplatePreview lib decErr c ident = Inl e \<and>
              (\<forall>decT. decode decErr decT resp = Inl e))) \<and>
      (StatusCode resp = 200 \<longrightarrow>
         GetTemplatePreview lib decErr c ident = io_ReadAll (Body resp) \<and>
         GetTemplatePreview lib decErr c ident = GetTemplatePreview lib decErr' c ident \<and>
         (\<forall>s. Body resp = Reader s \<longrightarrow> GetTemplatePreview lib decErr c ident = Inr s)))"
  unfolding GetCampaignPreview_def GetTemplatePreview_def
  by (intro conjI; rule impI, rule preview_spec, assumption)

theorem preview_endpoints_raw_text_witness:
  "GetCampaignPreview example_lib envelope_decoder
     (example_client (ok_response ''<h1>Hello {\"x\"}</h1>'')) 3 = Inr ''<h1>Hello {\"x\"}</h1>''
 \<and> GetTemplatePreview example_lib envelope_decoder
     (example_client \<lparr>StatusCode = 404, Body = Reader ''{\"message\": \"invalid email\"}''\<rparr>) 3
     = Inl (ErrorsNew ''invalid email'')
 \<and> decode envelope_decoder text_decoder
       \<lparr>StatusCode = 404, Body = Reader ''{\"message\": \"invalid email\"}''\<rparr>
     = Inl (ErrorsNew ''invalid email'')"
  using preview_endpoints_raw_text [of example_lib "example_client (ok_response ''<h1>Hello {\"x\"}</h1>'')" 3
      "ok_response ''<h1>Hello {\"x\"}</h1>''" envelope_decoder envelope_decoder]
    preview_endpoints_raw_text [of example_lib
      "example_client \<lparr>StatusCode = 404, Body = Reader ''{\"message\": \"invalid email\"}''\<rparr>" 3
      "\<lparr>StatusCode = 404, Body = Reader ''{\"message\": \"invalid email\"}''\<rparr>"
      envelope_decoder envelope_decoder]
  by (auto simp: ok_response_def envelope_decoder_def decode_def StatusOK_def)

text \<open>
  Claim C9. \<open>CreateTemplate\<close> and \<open>UpdateTemplate\<close> take element 0 of the decoded
  \<open>Data\<close> slice without a length check: a 200 response that decodes to an empty
  slice makes the call panic with an index out of range, and a slice with at least one
  template gives its first element.
\<close>

theorem template_first_element_unchecked:
  "(do lib c ''POST'' ''/api/templates'' None = Inr resp \<and> StatusCode resp = 200 \<longrightarrow>
      (dec (Body resp) = Inr \<lparr>Data = []\<rparr> \<longrightarrow>
         CreateTemplate lib decErr dec c params = Inl (IndexOutOfRange 0 0)) \<and>
      (\<forall>t ts. dec (Body resp) = Inr \<lparr>Data = t # ts\<rparr> \<longrightarrow>
         CreateTemplate lib decErr dec c params = Inr (Inr t)))
 \<and> (do lib c ''PUT'' (''/api/templates/'' @ itoa ident) None = Inr resp \<and> StatusCode resp = 200 \<longrightarrow>
      (dec (Body resp) = Inr \<lparr>Data = []\<rparr> \<longrightarrow>
         UpdateTemplate lib decErr dec c ident = Inl (IndexOutOfRange 0 0)) \<and>
      (\<forall>t ts. dec (Body resp) = Inr \<lparr>Data = t # ts\<rparr> \<longrightarrow>
         UpdateTemplate lib decErr dec c ident = Inr (Inr t)))"
  unfolding CreateTemplate_def UpdateTemplate_def
  using first_template_request [of lib c _ _ resp dec _ decErr]
  by (auto simp: first_element_def)

theorem template_first_element_unchecked_witness:
  "CreateTemplate example_lib envelope_decoder templates_decoder
     (example_client (ok_response ''{\"data\": []}'')) sample_params
     = Inl (IndexOutOfRange 0 0)
 \<and> UpdateTemplate example_lib envelope_decoder templates_decoder
     (example_client (ok_response ''{\"data\": []}'')) 5 = Inl (IndexOutOfRange 0 0)
 \<and> UpdateTemplate example_lib envelope_decoder templates_decoder
     (example_client (ok_response ''{\"data\": [\"t\"]}'')) 5 = Inr (Inr ''t'')"
  using template_first_element_unchecked [of example_lib "example_client (ok_response ''{\"data\": []}'')"
      "ok_response ''{\"data\": []}''" templates_decoder envelope_decoder sample_params 5]
    template_first_element_unchecked [of example_lib "example_client (ok_response ''{\"data\": [\"t\"]}'')"
      "ok_response ''{\"data\": [\"t\"]}''" templates_decoder envelope_decoder sample_params 5]
  by (simp add: ok_response_def templates_decoder_def)

text \<open>
  Claim C10. \<open>CreateTemplate\<close> does not use its parameters: any two parameter values
  give the same call, which is \<open>request\<close> with a nil data object, and the request
  built for it has no body and the joined endpoint as its URL, with no query string.
\<close>

theorem CreateTemplate_ignores_params:
  "CreateTemplate lib decErr dec c p1 = CreateTemplate lib decErr dec c p2
 \<and> CreateTemplate lib decErr dec c p1 =
     (case request lib decErr dec c ''POST'' ''/api/templates'' None of
        Inl err \<Rightarrow> Inr (Inl err)
      | Inr resp \<Rightarrow> first_element (Data resp))
 \<and> (\<forall>req. do_request lib c ''POST'' ''/api/templates'' None = Inr req \<longrightarrow>
        ReqBody req = None \<and> url_JoinPath lib (BaseURL c) ''/api/templates'' = Inr (URL req))"
  by (auto simp: CreateTemplate_def do_request_def do_endpoint_def do_body_def
        http_NewRequestWithContext_def Header_Set_def split: sum.splits option.splits)

theorem CreateTemplate_ignores_params_witness:
  "do_request example_lib (example_client (ok_response ''{}'')) ''POST'' ''/api/templates'' None =
     Inr \<lparr>Method = ''POST'', URL = ''http://localhost:9000/api/templates'', ReqBody = None,
          Header = [''Authorization'' \<mapsto> ''token api:secret'', ''Content-Type'' \<mapsto> ''application/json'']\<rparr>
   \<and> sample_params \<noteq> other_params
   \<and> CreateTemplate example_lib envelope_decoder templates_decoder
       (example_client (ok_response ''{\"data\": [\"t\"]}'')) sample_params
     = CreateTemplate example_lib envelope_decoder templates_decoder
       (example_client (ok_response ''{\"data\": [\"t\"]}'')) other_params"
  using CreateTemplate_ignores_params [of example_lib envelope_decoder templates_decoder
      "example_client (ok_response ''{\"data\": [\"t\"]}'')" sample_params other_params]
  by (simp add: example_lib_def example_client_def do_request_def do_endpoint_def do_body_def
       http_NewRequestWithContext_def Header_Set_def auth_def sample_params_def other_params_def)

section \<open>The body of a multipart upload\<close>

lemma write_files_parts:
  "write_files w (map stream_entry streams) =
     Inr (Inr (w\<lparr>Parts := Parts w @ map file_part streams\<rparr>))"
proof (induction streams arbitrary: w)
  case Nil
  then show ?case by simp
next
  case (Cons f streams)
  obtain key content where f: "f = (key, content)" by (cases f)
  show ?case
    by (simp add: f CreateFormFile_def io_Copy_def Cons.IH)
qed

lemma write_fields_parts:
  "write_fields w form_fields = Inr (w\<lparr>Parts := Parts w @ map field_part form_fields\<rparr>)"
  by (induction form_fields arbitrary: w) (auto simp: WriteField_def)

lemma multipart_request_built:
  assumes "url_JoinPath lib (BaseURL c) path = Inr endpoint"
    and "http_NewRequest_rejects lib ''POST'' endpoint = None"
  shows "multipart_request lib c boundary path form_fields (map stream_entry streams) =
     Inr (Inr \<lparr>Method = ''POST'', URL = endpoint,
            ReqBody = Some (MultipartForm boundary
                        (map file_part streams @ map field_part form_fields)),
            Header = [''Authorization'' \<mapsto> auth c,
                      ''Content-Type'' \<mapsto> ''multipart/form-data; boundary='' @ boundary]\<rparr>)"
  using assms
  by (simp add: multipart_request_def write_files_parts write_fields_parts NewWriter_def
        Writer_Close_def http_NewRequestWithContext_def Header_Set_def FormDataContentType_def)

text \<open>
  Claim C6. For a map of string fields and a map of supplied, readable streams the
  request built by \<open>multipart\<close> is a POST whose body is one multipart/form-data
  document: a file part for every stream entry, named by its key, followed by a form
  field for every string entry. \<open>ImportSubscribers\<close> sends the document with the file
  part \<open>file\<close> holding the given content and the field \<open>params\<close> holding the JSON
  of the configuration.
\<close>

theorem multipart_single_document:
  assumes "url_JoinPath lib (BaseURL c) path = Inr endpoint"
    and "http_NewRequest_rejects lib ''POST'' endpoint = None"
  shows "(\<exists>req. multipart_request lib c boundary path form_fields (map stream_entry streams)
              = Inr (Inr req)
            \<and> Method req = ''POST'' \<and> URL req = endpoint
            \<and> ReqBody req = Some (MultipartForm boundary
                 (map file_part streams @ map field_part form_fields))
            \<and> Header req ''Content-Type'' = Some (''multipart/form-data; boundary='' @ boundary))
       \<and> (path = ''/api/import/subscribers'' \<and> json_Marshal cfg = Inr config \<longrightarrow>
            ImportSubscribers lib json_Marshal decErr dec c boundary
                (Some \<lparr>Config = cfg, File = Some (Reader content)\<rparr>)
              = (case HTTPClient c
                   \<lparr>Method = ''POST'', URL = endpoint,
                    ReqBody = Some (MultipartForm boundary
                                [FormFile ''file'' ''file'' content, FormField ''params'' config]),
                    Header = [''Authorization'' \<mapsto> auth c,
                              ''Content-Type'' \<mapsto> ''multipart/form-data; boundary='' @ boundary]\<rparr> of
                   Inl err \<Rightarrow> Inr (Inl (TransportError err))
                 | Inr resp \<Rightarrow> Inr (map_sum id Data (decode decErr dec resp))))"
proof (intro conjI impI)
  show "\<exists>req. multipart_request lib c boundary path form_fields (map stream_entry streams)
              = Inr (Inr req)
            \<and> Method req = ''POST'' \<and> URL req = endpoint
            \<and> ReqBody req = Some (MultipartForm boundary
                 (map file_part streams @ map field_part form_fields))
            \<and> Header req ''Content-Type'' = Some (''multipart/form-data; boundary='' @ boundary)"
    by (simp add: multipart_request_built [OF assms])
next
  assume a: "path = ''/api/import/subscribers'' \<and> json_Marshal cfg = Inr config"
  have "multipart_request lib c boundary ''/api/import/subscribers'' [(''params'', config)]
          (map stream_entry [(''file'', content)]) =
     Inr (Inr \<lparr>Method = ''POST'', URL = endpoint,
            ReqBody = Some (MultipartForm boundary
                        (map file_part [(''file'', content)] @ map field_part [(''params'', config)])),
            Header = [''Authorization'' \<mapsto> auth c,
                      ''Content-Type'' \<mapsto> ''multipart/form-data; boundary='' @ boundary]\<rparr>)"
    using assms a by (intro multipart_request_built) auto
  then have req: "multipart_request lib c boundary ''/api/import/subscribers'' [(''params'', config)]
          [(''file'', Some (Reader content))] =
     Inr (Inr \<lparr>Method = ''POST'', URL = endpoint,
            ReqBody = Some (MultipartForm boundary
                        [FormFile ''file'' ''file'' content, FormField ''params'' config]),
            Header = [''Authorization'' \<mapsto> auth c,
                      ''Content-Type'' \<mapsto> ''multipart/form-data; boundary='' @ boundary]\<rparr>)"
    by simp
  show "ImportSubscribers lib json_Marshal decErr dec c boundary
                (Some \<lparr>Config = cfg, File = Some (Reader content)\<rparr>)
              = (case HTTPClient c
                   \<lparr>Method = ''POST'', URL = endpoint,
                    ReqBody = Some (MultipartForm boundary
                                [FormFile ''file'' ''file'' content, FormField ''params'' config]),
                    Header = [''Authorization'' \<mapsto> auth c,
                              ''Content-Type'' \<mapsto> ''multipart/form-data; boundary='' @ boundary]\<rparr> of
                   Inl err \<Rightarrow> Inr (Inl (TransportError err))
                 | Inr resp \<Rightarrow> Inr (map_sum id Data (decode decErr dec resp)))"
    unfolding ImportSubscribers_def multipart_def
    using a by (simp add: req split: sum.splits)
qed

theorem multipart_single_document_witness:
  "multipart_request example_lib (example_client (ok_response ''{\"data\": \"subscribe\"}'')) ''b0undary''
      ''/api/import/subscribers'' [(''params'', sample_config_json)]
      [(''file'', Some (Reader ''email,name''))]
    = Inr (Inr \<lparr>Method = ''POST'', URL = ''http://localhost:9000/api/import/subscribers'',
            ReqBody = Some (MultipartForm ''b0undary''
                        [FormFile ''file'' ''file'' ''email,name'',
                         FormField ''params'' sample_config_json]),
            Header = [''Authorization'' \<mapsto> ''token api:secret'',
                      ''Content-Type'' \<mapsto> ''multipart/form-data; boundary=b0undary'']\<rparr>)
 \<and> ImportSubscribers example_lib marshal_config envelope_decoder import_decoder
      (example_client (ok_response ''{\"data\": \"subscribe\"}'')) ''b0undary''
      (Some \<lparr>Config = sample_config, File = Some (Reader ''email,name'')\<rparr>)
    = Inr (Inr ''subscribe'')"
proof -
  have j: "url_JoinPath example_lib
             (BaseURL (example_client (ok_response ''{\"data\": \"subscribe\"}'')))
             ''/api/import/subscribers'' = Inr ''http://localhost:9000/api/import/subscribers''"
    by (simp add: example_lib_def example_client_def)
  have n: "http_NewRequest_rejects example_lib ''POST''
             ''http://localhost:9000/api/import/subscribers'' = None"
    by (simp add: example_lib_def)
  have m: "marshal_config sample_config = Inr sample_config_json"
    by (simp add: marshal_config_def sample_config_def sample_config_json_def)
  have r: "multipart_request example_lib (example_client (ok_response ''{\"data\": \"subscribe\"}'')) ''b0undary''
      ''/api/import/subscribers'' [(''params'', sample_config_json)]
      [(''file'', Some (Reader ''email,name''))]
    = Inr (Inr \<lparr>Method = ''POST'', URL = ''http://localhost:9000/api/import/subscribers'',
            ReqBody = Some (MultipartForm ''b0undary''
                        [FormFile ''file'' ''file'' ''email,name'',
                         FormField ''params'' sample_config_json]),
            Header = [''Authorization'' \<mapsto> ''token api:secret'',
                      ''Content-Type'' \<mapsto> ''multipart/form-data; boundary=b0undary'']\<rparr>)"
    by (simp add: multipart_request_def example_lib_def example_client_def NewWriter_def
          CreateFormFile_def io_Copy_def WriteField_def Writer_Close_def auth_def
          http_NewRequestWithContext_def Header_Set_def FormDataContentType_def)
  have i: "ImportSubscribers example_lib marshal_config envelope_decoder import_decoder
      (example_client (ok_response ''{\"data\": \"subscribe\"}'')) ''b0undary''
      (Some \<lparr>Config = sample_config, File = Some (Reader ''email,name'')\<rparr>)
    = Inr (Inr ''subscribe'')"
    using multipart_single_document [OF j n, where boundary = "''b0undary''"
        and form_fields = "[(''params'', sample_config_json)]"
        and streams = "[(''file'', ''email,name'')]"
        and json_Marshal = marshal_config and cfg = sample_config
        and config = sample_config_json and content = "''email,name''"
        and decErr = envelope_decoder and dec = import_decoder] m
    by (simp add: example_client_def ok_response_def decode_def StatusOK_def import_decoder_def)
  show ?thesis using r i by (rule conjI)
qed

section \<open>Zero values in the query string\<close>

lemma append_pairs_Nil [simp]: "append_pairs [] buf = buf"
  by (simp add: append_pairs_def)

lemma append_pairs_Cons [simp]:
  "append_pairs (p # ps) buf = append_pairs ps ((if buf \<noteq> [] then buf @ ''&'' else buf) @ p)"
  by (simp add: append_pairs_def)

lemma append_pairs_append [simp]:
  "append_pairs (ps @ qs) buf = append_pairs qs (append_pairs ps buf)"
  by (simp add: append_pairs_def)



















section \<open>Round trip of the query encoding\<close>












































end
